theory Spec2Isabelle
  imports Main
begin

section \<open>MacroPad Plus firmware: the boot fork and the dispatch loop of main\<close>

text \<open>
  The development embeds \<^verbatim>\<open>src/software/macropad_plus.c\<close>. The function
  \<^verbatim>\<open>main\<close> talks to the hardware only through calls (pin reads, NeoPixel,
  USB HID, watchdog, delays) and through the macro functions of the customisation section,
  so its behaviour is the sequence of calls it makes together with the values of its five
  \<^verbatim>\<open>__bit\<close> variables. Each call is recorded with the values the variables
  hold at the moment of the call.
\<close>

subsection \<open>Pins, calls and variables\<close>

text \<open>The six pins that \<^verbatim>\<open>main\<close> reads.\<close>

datatype pin = PIN_KEY1 | PIN_KEY2 | PIN_KEY3 | PIN_ENC_A | PIN_ENC_B | PIN_ENC_SW

text \<open>The key codes used by the macro functions, and the three HID calls they make.\<close>

datatype keycode =
  KBD_KEY_F13 | KBD_KEY_F14 | KBD_KEY_F15 | KBD_KEY_F16 | KBD_KEY_F17 | KBD_KEY_F18

datatype hid_call = KBD_press keycode | KBD_release keycode | KBD_type keycode

text \<open>
  Every call that occurs in the body of \<^verbatim>\<open>main\<close>: the library calls and
  the ten macro functions (lines 81 to 137).
\<close>

datatype call =
    NEO_init | CLK_config | DLY_ms nat | NEO_clearAll | PIN_read pin
  | NEO_sendByte nat | BOOT_now
  | NEO_writeColor nat nat nat nat | NEO_update
  | HID_init | WDT_start | WDT_reset
  | KEY1_PRESSED | KEY1_RELEASED
  | KEY2_PRESSED | KEY2_RELEASED
  | KEY3_PRESSED | KEY3_RELEASED
  | ENC_CCW_ACTION | ENC_SW_PRESSED | ENC_SW_RELEASED | ENC_CW_ACTION

text \<open>The bodies of the macro functions; a library call has no macro body.\<close>

fun macro_body :: "call \<Rightarrow> hid_call list" where
  "macro_body KEY1_PRESSED = [KBD_press KBD_KEY_F13]"
| "macro_body KEY1_RELEASED = [KBD_release KBD_KEY_F13]"
| "macro_body KEY2_PRESSED = [KBD_press KBD_KEY_F14]"
| "macro_body KEY2_RELEASED = [KBD_release KBD_KEY_F14]"
| "macro_body KEY3_PRESSED = [KBD_press KBD_KEY_F15]"
| "macro_body KEY3_RELEASED = [KBD_release KBD_KEY_F15]"
| "macro_body ENC_CCW_ACTION = [KBD_type KBD_KEY_F16]"
| "macro_body ENC_SW_PRESSED = [KBD_press KBD_KEY_F17]"
| "macro_body ENC_SW_RELEASED = [KBD_release KBD_KEY_F17]"
| "macro_body ENC_CW_ACTION = [KBD_type KBD_KEY_F18]"
| "macro_body _ = []"

text \<open>The five \<^verbatim>\<open>__bit\<close> variables of \<^verbatim>\<open>main\<close> (lines 159 to 163).\<close>

record vars =
  key1last :: bool
  key2last :: bool
  key3last :: bool
  encAlast :: bool
  encSWlast :: bool

text \<open>
  An event is a call together with the variables as they are when the call is made.
  The raw levels that \<^verbatim>\<open>PIN_read\<close> returns during one pass are given by a
  function on pins (every pin is read at most once per pass).
\<close>

type_synonym event = "call \<times> vars"

type_synonym pins = "pin \<Rightarrow> bool"

definition stamp :: "vars \<Rightarrow> call list \<Rightarrow> event list" where
  "stamp v cs = map (\<lambda>c. (c, v)) cs"

subsection \<open>The loop body\<close>

text \<open>Lines 197 to 205: key 1.\<close>

definition handle_key1 :: "pins \<Rightarrow> vars \<Rightarrow> event list \<times> vars" where
  "handle_key1 rd v =
    (if (\<not> rd PIN_KEY1) \<noteq> key1last v then
       (let v' = v\<lparr>key1last := \<not> key1last v\<rparr> in
          if key1last v' then ([(PIN_read PIN_KEY1, v), (KEY1_PRESSED, v')], v')
          else ([(PIN_read PIN_KEY1, v), (KEY1_RELEASED, v')], v'))
     else ([(PIN_read PIN_KEY1, v)], v))"

text \<open>Lines 209 to 217: key 2.\<close>

definition handle_key2 :: "pins \<Rightarrow> vars \<Rightarrow> event list \<times> vars" where
  "handle_key2 rd v =
    (if (\<not> rd PIN_KEY2) \<noteq> key2last v then
       (let v' = v\<lparr>key2last := \<not> key2last v\<rparr> in
          if key2last v' then ([(PIN_read PIN_KEY2, v), (KEY2_PRESSED, v')], v')
          else ([(PIN_read PIN_KEY2, v), (KEY2_RELEASED, v')], v'))
     else ([(PIN_read PIN_KEY2, v)], v))"

text \<open>Lines 221 to 229: key 3.\<close>

definition handle_key3 :: "pins \<Rightarrow> vars \<Rightarrow> event list \<times> vars" where
  "handle_key3 rd v =
    (if (\<not> rd PIN_KEY3) \<noteq> key3last v then
       (let v' = v\<lparr>key3last := \<not> key3last v\<rparr> in
          if key3last v' then ([(PIN_read PIN_KEY3, v), (KEY3_PRESSED, v')], v')
          else ([(PIN_read PIN_KEY3, v), (KEY3_RELEASED, v')], v'))
     else ([(PIN_read PIN_KEY3, v)], v))"

text \<open>
  Lines 233 to 243: the rotary encoder. Channel B is read, without negation, only after
  channel A has been found changed and the flag has been flipped to 1.
\<close>

definition handle_encoder :: "pins \<Rightarrow> vars \<Rightarrow> event list \<times> vars" where
  "handle_encoder rd v =
    (if (\<not> rd PIN_ENC_A) \<noteq> encAlast v then
       (let v' = v\<lparr>encAlast := \<not> encAlast v\<rparr> in
          if encAlast v' then
            (if rd PIN_ENC_B then
               ([(PIN_read PIN_ENC_A, v), (PIN_read PIN_ENC_B, v'), (ENC_CW_ACTION, v')], v')
             else
               ([(PIN_read PIN_ENC_A, v), (PIN_read PIN_ENC_B, v'), (ENC_CCW_ACTION, v')], v'))
          else ([(PIN_read PIN_ENC_A, v)], v'))
     else ([(PIN_read PIN_ENC_A, v)], v))"

text \<open>Lines 247 to 255: the encoder switch.\<close>

definition handle_encoder_switch :: "pins \<Rightarrow> vars \<Rightarrow> event list \<times> vars" where
  "handle_encoder_switch rd v =
    (if (\<not> rd PIN_ENC_SW) \<noteq> encSWlast v then
       (let v' = v\<lparr>encSWlast := \<not> encSWlast v\<rparr> in
          if encSWlast v' then ([(PIN_read PIN_ENC_SW, v), (ENC_SW_PRESSED, v')], v')
          else ([(PIN_read PIN_ENC_SW, v), (ENC_SW_RELEASED, v')], v'))
     else ([(PIN_read PIN_ENC_SW, v)], v))"

text \<open>Lines 193 to 259: one pass through the body of \<^verbatim>\<open>while(1)\<close>.\<close>

definition loop_body :: "pins \<Rightarrow> vars \<Rightarrow> event list \<times> vars" where
  "loop_body rd v =
    (let (t1, v1) = handle_key1 rd v;
         (t2, v2) = handle_key2 rd v1;
         (t3, v3) = handle_key3 rd v2;
         (t4, v4) = handle_encoder rd v3;
         (t5, v5) = handle_encoder_switch rd v4
     in (t1 @ t2 @ t3 @ t4 @ t5 @ stamp v5 [DLY_ms 2, WDT_reset], v5))"

text \<open>
  The loop never ends. Its behaviour is given by its finite prefixes: the passes made for
  a list of samples, one sample per pass.
\<close>

fun main_loop :: "pins list \<Rightarrow> vars \<Rightarrow> event list \<times> vars" where
  "main_loop [] v = ([], v)"
| "main_loop (rd # rds) v =
    (let (t, v') = loop_body rd v;
         (ts, v'') = main_loop rds v'
     in (t @ ts, v''))"

subsection \<open>The boot sequence\<close>

text \<open>Lines 159 to 163: all five flags start at 0.\<close>

definition main_vars :: vars where
  "main_vars = \<lparr>key1last = False, key2last = False, key3last = False,
                 encAlast = False, encSWlast = False\<rparr>"

text \<open>
  Line 174: \<^verbatim>\<open>for(i=3*NEO_COUNT; i; i--) NEO_sendByte(127);\<close> with the counter
  \<^verbatim>\<open>i\<close> as argument.
\<close>

fun light_up :: "nat \<Rightarrow> call list" where
  "light_up 0 = []"
| "light_up (Suc i) = NEO_sendByte 127 # light_up i"

text \<open>
  Modelled from the spec: \<^verbatim>\<open>BOOT_now\<close> is a macro of
  \<^verbatim>\<open>src/system.h\<close>, which is not among the source files. The spec (section 6,
  \<^verbatim>\<open>enter_bootloader\<close>, and section 4.4) says that the call never returns to the
  normal flow.
\<close>

definition BOOT_now_returns :: bool where
  "BOOT_now_returns = False"

text \<open>Lines 182 to 190: the colour pattern, the HID initialisation and the watchdog.\<close>

definition normal_start :: "call list" where
  "normal_start =
    [NEO_writeColor 0 255 33 140, NEO_writeColor 1 255 216 0, NEO_writeColor 2 33 177 255,
     NEO_update, HID_init, DLY_ms 500, WDT_start]"

text \<open>
  Lines 157 to 260. \<^verbatim>\<open>NEO_COUNT\<close> is a constant of
  \<^verbatim>\<open>src/config.h\<close>, which is not among the source files, so it is a parameter;
  the counter \<^verbatim>\<open>i\<close> is a \<^verbatim>\<open>uint8_t\<close>, hence the reduction modulo 256.
  The sample \<open>rd0\<close> gives the pin levels at the boot decision, \<open>rds\<close> the samples of
  the passes through the loop. The source has no \<^verbatim>\<open>else\<close> after the
  bootloader branch: control would reach line 182 if \<^verbatim>\<open>BOOT_now\<close> returned.
\<close>

definition main :: "nat \<Rightarrow> pins \<Rightarrow> pins list \<Rightarrow> event list \<times> vars" where
  "main NEO_COUNT rd0 rds =
    (let v = main_vars;
         t_setup = stamp v [NEO_init, CLK_config, DLY_ms 10, NEO_clearAll];
         t_boot = (if \<not> rd0 PIN_ENC_SW
                   then stamp v (PIN_read PIN_ENC_SW # light_up ((3 * NEO_COUNT) mod 256) @ [BOOT_now])
                   else stamp v [PIN_read PIN_ENC_SW])
     in if \<not> rd0 PIN_ENC_SW \<and> \<not> BOOT_now_returns then (t_setup @ t_boot, v)
        else (let (t_loop, v') = main_loop rds v
              in (t_setup @ t_boot @ stamp v normal_start @ t_loop, v')))"

subsection \<open>Vocabulary for stating properties\<close>

text \<open>
  The logical level of a pin is the negated raw reading: a pin is active when it reads
  low. This is the level that the source compares with a flag, for the three keys, for
  encoder channel A and for the encoder switch (\<^verbatim>\<open>!PIN_read(...)\<close>, lines
  173, 197, 209, 221, 233 and 247). Channel B is the second contact of the same encoder;
  the source reads it without the negation (line 236).
\<close>

definition level :: "pins \<Rightarrow> pin \<Rightarrow> bool" where
  "level rd p = (\<not> rd p)"

text \<open>The five channels that own a flag, each with its pin, flag and handler.\<close>

datatype channel = Key1 | Key2 | Key3 | EncA | EncSW

fun pin_of :: "channel \<Rightarrow> pin" where
  "pin_of Key1 = PIN_KEY1"
| "pin_of Key2 = PIN_KEY2"
| "pin_of Key3 = PIN_KEY3"
| "pin_of EncA = PIN_ENC_A"
| "pin_of EncSW = PIN_ENC_SW"

fun last_of :: "channel \<Rightarrow> vars \<Rightarrow> bool" where
  "last_of Key1 v = key1last v"
| "last_of Key2 v = key2last v"
| "last_of Key3 v = key3last v"
| "last_of EncA v = encAlast v"
| "last_of EncSW v = encSWlast v"

fun handle :: "channel \<Rightarrow> pins \<Rightarrow> vars \<Rightarrow> event list \<times> vars" where
  "handle Key1 = handle_key1"
| "handle Key2 = handle_key2"
| "handle Key3 = handle_key3"
| "handle EncA = handle_encoder"
| "handle EncSW = handle_encoder_switch"

text \<open>
  The press and release macro functions bound to a button channel. The encoder channel A
  has no such pair: its macro functions are the two rotation actions.
\<close>

fun binding :: "channel \<Rightarrow> (call \<times> call) option" where
  "binding Key1 = Some (KEY1_PRESSED, KEY1_RELEASED)"
| "binding Key2 = Some (KEY2_PRESSED, KEY2_RELEASED)"
| "binding Key3 = Some (KEY3_PRESSED, KEY3_RELEASED)"
| "binding EncA = None"
| "binding EncSW = Some (ENC_SW_PRESSED, ENC_SW_RELEASED)"

text \<open>The channel a macro function belongs to; a library call belongs to none.\<close>

fun owner :: "call \<Rightarrow> channel option" where
  "owner KEY1_PRESSED = Some Key1"
| "owner KEY1_RELEASED = Some Key1"
| "owner KEY2_PRESSED = Some Key2"
| "owner KEY2_RELEASED = Some Key2"
| "owner KEY3_PRESSED = Some Key3"
| "owner KEY3_RELEASED = Some Key3"
| "owner ENC_CW_ACTION = Some EncA"
| "owner ENC_CCW_ACTION = Some EncA"
| "owner ENC_SW_PRESSED = Some EncSW"
| "owner ENC_SW_RELEASED = Some EncSW"
| "owner _ = None"

text \<open>The place of a channel in the loop body, counted from 1.\<close>

fun place :: "channel \<Rightarrow> nat" where
  "place Key1 = 1"
| "place Key2 = 2"
| "place Key3 = 3"
| "place EncA = 4"
| "place EncSW = 5"

text \<open>
  The calls of a trace; the macro functions dispatched in it, in order; and those of one
  channel.
\<close>

definition calls :: "event list \<Rightarrow> call list" where
  "calls t = map fst t"

definition dispatched :: "event list \<Rightarrow> call list" where
  "dispatched t = filter (\<lambda>c. owner c \<noteq> None) (calls t)"

definition dispatched_for :: "channel \<Rightarrow> event list \<Rightarrow> call list" where
  "dispatched_for ch t = filter (\<lambda>c. owner c = Some ch) (calls t)"

text \<open>A sample in which exactly the listed pins read low.\<close>

definition low_pins :: "pin list \<Rightarrow> pins" where
  "low_pins ps p = (p \<notin> set ps)"

text \<open>The rank of a call: the place of its channel, and 0 for a library call.\<close>

definition rank :: "call \<Rightarrow> nat" where
  "rank c = (case owner c of None \<Rightarrow> 0 | Some ch \<Rightarrow> place ch)"

section \<open>Properties\<close>

subsection \<open>Lists of calls\<close>

lemma calls_Nil: "calls [] = []"
  by (simp add: calls_def)

lemma calls_append: "calls (s @ t) = calls s @ calls t"
  by (simp add: calls_def)

lemma calls_stamp: "calls (stamp v cs) = cs"
  by (simp add: calls_def stamp_def comp_def)

lemma count_list_absent: "x \<notin> set xs \<Longrightarrow> count_list xs x = 0"
  by (induction xs) auto

lemma count_list_replicate_self: "count_list (replicate n x) x = n"
  by (induction n) simp_all

lemma replicate_9: "replicate 9 x = [x, x, x, x, x, x, x, x, x]"
  by (simp add: eval_nat_numeral)

lemma owned_call_dispatched:
  "owner c = Some ch \<Longrightarrow> c \<in> set (calls t) \<longleftrightarrow> c \<in> set (dispatched_for ch t)"
  by (simp add: dispatched_for_def)

subsection \<open>The handlers\<close>

text \<open>
  Each handler leaves its flag equal to the negated reading of its pin, and its calls are
  the read of the pin followed by at most one macro function (and, for the encoder, the
  read of channel B).
\<close>

lemmas handle_defs =
  handle_key1_def handle_key2_def handle_key3_def handle_encoder_def handle_encoder_switch_def

lemma snd_handle_key1: "snd (handle_key1 rd v) = v\<lparr>key1last := \<not> rd PIN_KEY1\<rparr>"
  by (cases "rd PIN_KEY1"; cases "key1last v") (simp_all add: handle_key1_def Let_def)

lemma snd_handle_key2: "snd (handle_key2 rd v) = v\<lparr>key2last := \<not> rd PIN_KEY2\<rparr>"
  by (cases "rd PIN_KEY2"; cases "key2last v") (simp_all add: handle_key2_def Let_def)

lemma snd_handle_key3: "snd (handle_key3 rd v) = v\<lparr>key3last := \<not> rd PIN_KEY3\<rparr>"
  by (cases "rd PIN_KEY3"; cases "key3last v") (simp_all add: handle_key3_def Let_def)

lemma snd_handle_encoder: "snd (handle_encoder rd v) = v\<lparr>encAlast := \<not> rd PIN_ENC_A\<rparr>"
  by (cases "rd PIN_ENC_A"; cases "encAlast v") (simp_all add: handle_encoder_def Let_def)

lemma snd_handle_encoder_switch:
  "snd (handle_encoder_switch rd v) = v\<lparr>encSWlast := \<not> rd PIN_ENC_SW\<rparr>"
  by (cases "rd PIN_ENC_SW"; cases "encSWlast v") (simp_all add: handle_encoder_switch_def Let_def)

lemmas snd_handle =
  snd_handle_key1 snd_handle_key2 snd_handle_key3 snd_handle_encoder snd_handle_encoder_switch

lemma calls_handle_key1:
  "calls (fst (handle_key1 rd v)) =
     PIN_read PIN_KEY1 #
       (if (\<not> rd PIN_KEY1) = key1last v then []
        else if rd PIN_KEY1 then [KEY1_RELEASED] else [KEY1_PRESSED])"
  by (simp add: handle_key1_def calls_def Let_def)

lemma calls_handle_key2:
  "calls (fst (handle_key2 rd v)) =
     PIN_read PIN_KEY2 #
       (if (\<not> rd PIN_KEY2) = key2last v then []
        else if rd PIN_KEY2 then [KEY2_RELEASED] else [KEY2_PRESSED])"
  by (simp add: handle_key2_def calls_def Let_def)

lemma calls_handle_key3:
  "calls (fst (handle_key3 rd v)) =
     PIN_read PIN_KEY3 #
       (if (\<not> rd PIN_KEY3) = key3last v then []
        else if rd PIN_KEY3 then [KEY3_RELEASED] else [KEY3_PRESSED])"
  by (simp add: handle_key3_def calls_def Let_def)

lemma calls_handle_encoder:
  "calls (fst (handle_encoder rd v)) =
     PIN_read PIN_ENC_A #
       (if (\<not> rd PIN_ENC_A) = encAlast v \<or> rd PIN_ENC_A then []
        else if rd PIN_ENC_B then [PIN_read PIN_ENC_B, ENC_CW_ACTION]
        else [PIN_read PIN_ENC_B, ENC_CCW_ACTION])"
  by (simp add: handle_encoder_def calls_def Let_def)

lemma calls_handle_encoder_switch:
  "calls (fst (handle_encoder_switch rd v)) =
     PIN_read PIN_ENC_SW #
       (if (\<not> rd PIN_ENC_SW) = encSWlast v then []
        else if rd PIN_ENC_SW then [ENC_SW_RELEASED] else [ENC_SW_PRESSED])"
  by (simp add: handle_encoder_switch_def calls_def Let_def)

lemmas calls_handle =
  calls_handle_key1 calls_handle_key2 calls_handle_key3 calls_handle_encoder
  calls_handle_encoder_switch

lemma last_of_handle:
  "last_of ch' (snd (handle ch rd v)) = (if ch' = ch then \<not> rd (pin_of ch) else last_of ch' v)"
  by (cases ch; cases ch') (simp_all add: snd_handle)

lemma dispatched_handle:
  "dispatched (fst (handle ch rd v)) =
     (if (\<not> rd (pin_of ch)) = last_of ch v then []
      else case binding ch of
             Some (p, r) \<Rightarrow> [if rd (pin_of ch) then r else p]
           | None \<Rightarrow> if rd PIN_ENC_A then []
                     else [if rd PIN_ENC_B then ENC_CW_ACTION else ENC_CCW_ACTION])"
  unfolding dispatched_def
  by (cases ch) (simp_all add: calls_handle)

lemma binding_owner:
  "binding ch = Some (p, r) \<Longrightarrow> owner p = Some ch \<and> owner r = Some ch \<and> p \<noteq> r"
  by (cases ch) auto

lemma rank_dispatched_handle:
  "map rank (dispatched (fst (handle ch rd v))) =
     (if dispatched (fst (handle ch rd v)) = [] then [] else [place ch])"
  by (cases ch) (simp_all add: dispatched_def calls_handle rank_def)

lemma handle_calls_kind:
  "c \<in> set (calls (fst (handle ch rd v))) \<Longrightarrow>
     owner c = Some ch \<or> c = PIN_read (pin_of ch) \<or> c = PIN_read PIN_ENC_B"
  by (cases ch) (auto simp add: calls_handle split: if_splits)

lemma handle_event_snapshot:
  "e \<in> set (fst (handle ch' rd w)) \<Longrightarrow> owner (fst e) = Some ch \<Longrightarrow>
     ch' = ch \<and> last_of ch (snd e) = (\<not> rd (pin_of ch)) \<and> snd e = snd (handle ch rd w)"
  by (cases ch') (auto simp add: handle_defs Let_def split: if_splits)

lemma macro_body_single: "length (macro_body c) = (if owner c = None then 0 else 1)"
  by (cases c) simp_all

subsection \<open>One pass through the loop\<close>

text \<open>
  The pass threads the variables through the five handlers; since a handler depends only
  on its own flag, the calls of the pass are those of the handlers on the initial
  variables.
\<close>

lemma loop_body_split:
  "loop_body rd v =
    (fst (handle_key1 rd v)
       @ fst (handle_key2 rd (v\<lparr>key1last := \<not> rd PIN_KEY1\<rparr>))
       @ fst (handle_key3 rd (v\<lparr>key1last := \<not> rd PIN_KEY1, key2last := \<not> rd PIN_KEY2\<rparr>))
       @ fst (handle_encoder rd (v\<lparr>key1last := \<not> rd PIN_KEY1, key2last := \<not> rd PIN_KEY2,
                                     key3last := \<not> rd PIN_KEY3\<rparr>))
       @ fst (handle_encoder_switch rd (v\<lparr>key1last := \<not> rd PIN_KEY1, key2last := \<not> rd PIN_KEY2,
                                     key3last := \<not> rd PIN_KEY3, encAlast := \<not> rd PIN_ENC_A\<rparr>))
       @ stamp (v\<lparr>key1last := \<not> rd PIN_KEY1, key2last := \<not> rd PIN_KEY2,
                  key3last := \<not> rd PIN_KEY3, encAlast := \<not> rd PIN_ENC_A,
                  encSWlast := \<not> rd PIN_ENC_SW\<rparr>) [DLY_ms 2, WDT_reset],
     v\<lparr>key1last := \<not> rd PIN_KEY1, key2last := \<not> rd PIN_KEY2,
                  key3last := \<not> rd PIN_KEY3, encAlast := \<not> rd PIN_ENC_A,
                  encSWlast := \<not> rd PIN_ENC_SW\<rparr>)"
  unfolding loop_body_def
  by (simp add: split_beta snd_handle)

lemma snd_loop_body:
  "snd (loop_body rd v) =
     \<lparr>key1last = \<not> rd PIN_KEY1, key2last = \<not> rd PIN_KEY2, key3last = \<not> rd PIN_KEY3,
      encAlast = \<not> rd PIN_ENC_A, encSWlast = \<not> rd PIN_ENC_SW\<rparr>"
  by (simp add: loop_body_split)

lemma last_of_loop_body: "last_of ch (snd (loop_body rd v)) = (\<not> rd (pin_of ch))"
  by (cases ch) (simp_all add: snd_loop_body)

lemma calls_loop_body:
  "calls (fst (loop_body rd v)) =
     calls (fst (handle_key1 rd v)) @ calls (fst (handle_key2 rd v))
       @ calls (fst (handle_key3 rd v)) @ calls (fst (handle_encoder rd v))
       @ calls (fst (handle_encoder_switch rd v)) @ [DLY_ms 2, WDT_reset]"
  by (simp add: loop_body_split calls_append calls_stamp calls_handle)

lemma dispatched_loop_body:
  "dispatched (fst (loop_body rd v)) =
     dispatched (fst (handle_key1 rd v)) @ dispatched (fst (handle_key2 rd v))
       @ dispatched (fst (handle_key3 rd v)) @ dispatched (fst (handle_encoder rd v))
       @ dispatched (fst (handle_encoder_switch rd v))"
  unfolding dispatched_def calls_loop_body by simp

lemma dispatched_for_loop_body:
  "dispatched_for ch (fst (loop_body rd v)) = dispatched (fst (handle ch rd v))"
  unfolding dispatched_for_def dispatched_def calls_loop_body
  by (cases ch) (simp_all add: calls_handle)

lemma loop_body_calls_kind:
  "c \<in> set (calls (fst (loop_body rd v))) \<Longrightarrow>
     c = DLY_ms 2 \<or> c = WDT_reset \<or> owner c \<noteq> None \<or> (\<exists>p. c = PIN_read p)"
  using handle_calls_kind [of c Key1 rd v] handle_calls_kind [of c Key2 rd v]
    handle_calls_kind [of c Key3 rd v] handle_calls_kind [of c EncA rd v]
    handle_calls_kind [of c EncSW rd v]
  by (auto simp add: calls_loop_body)

lemma loop_body_event_snapshot:
  assumes "e \<in> set (fst (loop_body rd v))" and "owner (fst e) = Some ch"
  shows "last_of ch (snd e) = (\<not> rd (pin_of ch))"
  using assms unfolding loop_body_split
  by (auto simp add: stamp_def
      dest: handle_event_snapshot [where ch' = Key1, simplified]
        handle_event_snapshot [where ch' = Key2, simplified]
        handle_event_snapshot [where ch' = Key3, simplified]
        handle_event_snapshot [where ch' = EncA, simplified]
        handle_event_snapshot [where ch' = EncSW, simplified])

lemma count_WDT_reset_loop_body:
  "count_list (calls (fst (loop_body rd v))) WDT_reset = 1"
  by (simp add: calls_loop_body calls_handle)

subsection \<open>Runs of the loop and the boot sequence\<close>

lemma light_up_replicate: "light_up n = replicate n (NEO_sendByte 127)"
  by (induction n) simp_all

lemma fst_main_loop_Cons:
  "fst (main_loop (rd # rds) v) =
     fst (loop_body rd v) @ fst (main_loop rds (snd (loop_body rd v)))"
  by (simp add: split_beta)

lemma snd_main_loop_Cons:
  "snd (main_loop (rd # rds) v) = snd (main_loop rds (snd (loop_body rd v)))"
  by (simp add: split_beta)

lemma main_loop_calls_kind:
  "c \<in> set (calls (fst (main_loop rds v))) \<Longrightarrow>
     c = DLY_ms 2 \<or> c = WDT_reset \<or> owner c \<noteq> None \<or> (\<exists>p. c = PIN_read p)"
proof (induction rds arbitrary: v)
  case Nil
  then show ?case by (simp add: calls_def)
next
  case (Cons rd rds)
  from Cons.prems
  have "c \<in> set (calls (fst (loop_body rd v))) \<or>
        c \<in> set (calls (fst (main_loop rds (snd (loop_body rd v)))))"
    by (simp add: fst_main_loop_Cons calls_append del: main_loop.simps)
  then show ?case
    using loop_body_calls_kind Cons.IH by blast
qed

lemma main_loop_no_boot_calls:
  "HID_init \<notin> set (calls (fst (main_loop rds v)))"
  "BOOT_now \<notin> set (calls (fst (main_loop rds v)))"
  "WDT_start \<notin> set (calls (fst (main_loop rds v)))"
  using main_loop_calls_kind [of HID_init rds v] main_loop_calls_kind [of BOOT_now rds v]
    main_loop_calls_kind [of WDT_start rds v]
  by auto

lemma count_WDT_reset_main_loop:
  "count_list (calls (fst (main_loop rds v))) WDT_reset = length rds"
proof (induction rds arbitrary: v)
  case Nil
  show ?case by (simp add: calls_def)
next
  case (Cons rd rds)
  show ?case
    by (simp add: fst_main_loop_Cons calls_append count_WDT_reset_loop_body Cons.IH
        del: main_loop.simps)
qed

lemma calls_main_bootloader:
  "\<not> rd0 PIN_ENC_SW \<Longrightarrow>
     calls (fst (main NEO_COUNT rd0 rds)) =
       [NEO_init, CLK_config, DLY_ms 10, NEO_clearAll, PIN_read PIN_ENC_SW]
         @ replicate ((3 * NEO_COUNT) mod 256) (NEO_sendByte 127) @ [BOOT_now]"
  by (simp add: main_def BOOT_now_returns_def Let_def calls_append calls_stamp
      light_up_replicate)

lemma calls_main_normal:
  "rd0 PIN_ENC_SW \<Longrightarrow>
     calls (fst (main NEO_COUNT rd0 rds)) =
       [NEO_init, CLK_config, DLY_ms 10, NEO_clearAll, PIN_read PIN_ENC_SW,
        NEO_writeColor 0 255 33 140, NEO_writeColor 1 255 216 0, NEO_writeColor 2 33 177 255,
        NEO_update, HID_init, DLY_ms 500, WDT_start]
         @ calls (fst (main_loop rds main_vars))"
  by (simp add: main_def Let_def split_beta calls_append calls_stamp normal_start_def)

lemma fst_main_normal:
  "rd0 PIN_ENC_SW \<Longrightarrow>
     fst (main NEO_COUNT rd0 rds) =
       stamp main_vars ([NEO_init, CLK_config, DLY_ms 10, NEO_clearAll, PIN_read PIN_ENC_SW]
         @ normal_start) @ fst (main_loop rds main_vars)"
  by (simp add: main_def Let_def split_beta stamp_def)

text \<open>
  A run of three passes in which key 1 is pressed, released and pressed again: the macro
  functions are called in this order, each once.
\<close>

lemma key1_pressed_released_pressed:
  "dispatched (fst (main_loop [low_pins [PIN_KEY1], low_pins [], low_pins [PIN_KEY1]] main_vars)) =
     [KEY1_PRESSED, KEY1_RELEASED, KEY1_PRESSED]"
  by (simp add: fst_main_loop_Cons dispatched_def calls_append calls_loop_body calls_handle
      snd_loop_body low_pins_def main_vars_def calls_Nil del: main_loop.simps(2))

subsection \<open>The claims\<close>

text \<open>
  Claim C1, as amended. In a pass in which encoder channel A rises (its flag is 0 and its
  pin reads low), channel B is read right after the flag has been flipped and exactly one
  rotation action is dispatched, chosen by the raw reading of channel B: the clockwise
  action when the pin of B reads high, that is when B is inactive in the active-low sense
  that the source applies to channel A and to every key, and the counter-clockwise action
  when it reads low, that is when B is active. When channel A falls, channel B is not
  read, no rotation action is dispatched, and the flag of A is still updated.
\<close>

theorem encoder_rotation_by_raw_B:
  "(level rd PIN_ENC_A \<and> \<not> encAlast v \<longrightarrow>
      calls (fst (handle_encoder rd v)) =
        [PIN_read PIN_ENC_A, PIN_read PIN_ENC_B,
         if level rd PIN_ENC_B then ENC_CCW_ACTION else ENC_CW_ACTION]
    \<and> dispatched_for EncA (fst (loop_body rd v)) =
        [if level rd PIN_ENC_B then ENC_CCW_ACTION else ENC_CW_ACTION]
    \<and> encAlast (snd (loop_body rd v)))
   \<and> (\<not> level rd PIN_ENC_A \<and> encAlast v \<longrightarrow>
      calls (fst (handle_encoder rd v)) = [PIN_read PIN_ENC_A]
    \<and> dispatched_for EncA (fst (loop_body rd v)) = []
    \<and> \<not> encAlast (snd (loop_body rd v)))"
  using dispatched_handle [of EncA rd v]
  by (simp add: level_def calls_handle dispatched_for_loop_body snd_loop_body)

theorem encoder_rotation_by_raw_B_witness:
  "level (low_pins [PIN_ENC_A]) PIN_ENC_A \<and> \<not> encAlast main_vars
   \<and> \<not> level (low_pins [PIN_ENC_A]) PIN_ENC_B
   \<and> dispatched_for EncA (fst (loop_body (low_pins [PIN_ENC_A]) main_vars)) = [ENC_CW_ACTION]
   \<and> encAlast (snd (loop_body (low_pins [PIN_ENC_A]) main_vars))
   \<and> \<not> level (low_pins []) PIN_ENC_A
   \<and> dispatched_for EncA
        (fst (loop_body (low_pins []) (snd (loop_body (low_pins [PIN_ENC_A]) main_vars)))) = []
   \<and> \<not> encAlast (snd (loop_body (low_pins []) (snd (loop_body (low_pins [PIN_ENC_A]) main_vars))))"
  using encoder_rotation_by_raw_B [of "low_pins [PIN_ENC_A]" main_vars]
    encoder_rotation_by_raw_B
      [of "low_pins []" "snd (loop_body (low_pins [PIN_ENC_A]) main_vars)"]
  by (simp add: level_def low_pins_def main_vars_def)

text \<open>
  Claim C1 as stated, with the clockwise action tied to an active channel B, fails. Take
  the first pass with the pins of A and B both low: channel A rises and channel B is
  active (line 236 tests \<^verbatim>\<open>PIN_read(PIN_ENC_B)\<close> without negation, and
  the reading is 0), yet the action dispatched is the counter-clockwise one and the
  clockwise action is not called.
\<close>

theorem encoder_B_active_gives_CCW:
  "level (low_pins [PIN_ENC_A, PIN_ENC_B]) PIN_ENC_A \<and> \<not> encAlast main_vars
   \<and> level (low_pins [PIN_ENC_A, PIN_ENC_B]) PIN_ENC_B
   \<and> dispatched_for EncA (fst (loop_body (low_pins [PIN_ENC_A, PIN_ENC_B]) main_vars)) =
       [ENC_CCW_ACTION]
   \<and> ENC_CW_ACTION \<notin> set (calls (fst (loop_body (low_pins [PIN_ENC_A, PIN_ENC_B]) main_vars)))"
  by (simp add: level_def low_pins_def main_vars_def dispatched_for_def calls_loop_body
      calls_handle)

text \<open>
  Claim C2. For a button channel (keys 1 to 3 and the encoder switch) whose sampled level
  differs from its flag, the flag becomes the new level and exactly one macro function of
  the channel is dispatched: the pressed one when the new level is active, the released
  one when it is inactive. This holds for the handler alone and for the whole pass.
\<close>

theorem button_transition:
  "binding ch = Some (p, r) \<Longrightarrow> level rd (pin_of ch) \<noteq> last_of ch v \<Longrightarrow>
     last_of ch (snd (handle ch rd v)) = level rd (pin_of ch)
   \<and> dispatched (fst (handle ch rd v)) = [if level rd (pin_of ch) then p else r]
   \<and> last_of ch (snd (loop_body rd v)) = level rd (pin_of ch)
   \<and> dispatched_for ch (fst (loop_body rd v)) = [if level rd (pin_of ch) then p else r]"
  by (simp add: level_def last_of_handle dispatched_for_loop_body dispatched_handle
      last_of_loop_body)

theorem button_transition_witness:
  "binding EncSW = Some (ENC_SW_PRESSED, ENC_SW_RELEASED)
   \<and> level (low_pins [PIN_ENC_SW]) (pin_of EncSW) \<noteq> last_of EncSW main_vars
   \<and> last_of EncSW (snd (loop_body (low_pins [PIN_ENC_SW]) main_vars)) = True
   \<and> dispatched_for EncSW (fst (loop_body (low_pins [PIN_ENC_SW]) main_vars)) = [ENC_SW_PRESSED]"
  using button_transition [of EncSW ENC_SW_PRESSED ENC_SW_RELEASED "low_pins [PIN_ENC_SW]" main_vars]
  by (simp add: level_def low_pins_def main_vars_def)

text \<open>
  Claim C3. The boot sequence reads the encoder switch exactly once before the loop.
  If the switch is active, the calls are the set-up, the read, one
  \<^verbatim>\<open>NEO_sendByte(127)\<close> per value of the 8-bit counter (three per pixel, all
  pixels, whenever \<^verbatim>\<open>3*NEO_COUNT\<close> fits the counter) and then
  \<^verbatim>\<open>BOOT_now\<close>; \<^verbatim>\<open>HID_init\<close> is never called. If the switch is
  inactive, the calls are the set-up, the read, the three colours for pixels 0, 1 and 2,
  \<^verbatim>\<open>NEO_update\<close>, \<^verbatim>\<open>HID_init\<close> (exactly once),
  \<^verbatim>\<open>DLY_ms(500)\<close>, \<^verbatim>\<open>WDT_start\<close> and then the passes of the
  loop, in this order; \<^verbatim>\<open>BOOT_now\<close> is never called.
\<close>

theorem boot_sequence:
  "(level rd0 PIN_ENC_SW \<longrightarrow>
      calls (fst (main NEO_COUNT rd0 rds)) =
        [NEO_init, CLK_config, DLY_ms 10, NEO_clearAll, PIN_read PIN_ENC_SW]
          @ replicate ((3 * NEO_COUNT) mod 256) (NEO_sendByte 127) @ [BOOT_now]
    \<and> (NEO_COUNT \<le> 85 \<longrightarrow>
         count_list (calls (fst (main NEO_COUNT rd0 rds))) (NEO_sendByte 127) = 3 * NEO_COUNT)
    \<and> count_list (calls (fst (main NEO_COUNT rd0 rds))) (PIN_read PIN_ENC_SW) = 1
    \<and> HID_init \<notin> set (calls (fst (main NEO_COUNT rd0 rds))))
   \<and> (\<not> level rd0 PIN_ENC_SW \<longrightarrow>
      calls (fst (main NEO_COUNT rd0 rds)) =
        [NEO_init, CLK_config, DLY_ms 10, NEO_clearAll, PIN_read PIN_ENC_SW,
         NEO_writeColor 0 255 33 140, NEO_writeColor 1 255 216 0, NEO_writeColor 2 33 177 255,
         NEO_update, HID_init, DLY_ms 500, WDT_start]
          @ calls (fst (main_loop rds main_vars))
    \<and> count_list (calls (fst (main NEO_COUNT rd0 []))) (PIN_read PIN_ENC_SW) = 1
    \<and> count_list (calls (fst (main NEO_COUNT rd0 rds))) HID_init = 1
    \<and> BOOT_now \<notin> set (calls (fst (main NEO_COUNT rd0 rds))))"
proof (cases "rd0 PIN_ENC_SW")
  case True
  then show ?thesis
    by (simp add: level_def calls_main_normal main_loop_no_boot_calls count_list_absent
        calls_Nil)
next
  case False
  then show ?thesis
    by (simp add: level_def calls_main_bootloader count_list_replicate_self)
qed

theorem boot_sequence_witness:
  "level (low_pins [PIN_ENC_SW]) PIN_ENC_SW \<and> (3::nat) \<le> 85
   \<and> calls (fst (main 3 (low_pins [PIN_ENC_SW]) [low_pins []])) =
       [NEO_init, CLK_config, DLY_ms 10, NEO_clearAll, PIN_read PIN_ENC_SW,
        NEO_sendByte 127, NEO_sendByte 127, NEO_sendByte 127,
        NEO_sendByte 127, NEO_sendByte 127, NEO_sendByte 127,
        NEO_sendByte 127, NEO_sendByte 127, NEO_sendByte 127, BOOT_now]
   \<and> count_list (calls (fst (main 3 (low_pins [PIN_ENC_SW]) [low_pins []]))) (NEO_sendByte 127) = 9
   \<and> HID_init \<notin> set (calls (fst (main 3 (low_pins [PIN_ENC_SW]) [low_pins []])))
   \<and> \<not> level (low_pins []) PIN_ENC_SW
   \<and> calls (fst (main 3 (low_pins []) [])) =
       [NEO_init, CLK_config, DLY_ms 10, NEO_clearAll, PIN_read PIN_ENC_SW,
        NEO_writeColor 0 255 33 140, NEO_writeColor 1 255 216 0, NEO_writeColor 2 33 177 255,
        NEO_update, HID_init, DLY_ms 500, WDT_start]
   \<and> count_list (calls (fst (main 3 (low_pins []) []))) HID_init = 1
   \<and> BOOT_now \<notin> set (calls (fst (main 3 (low_pins []) [])))"
  using boot_sequence [of "low_pins [PIN_ENC_SW]" 3 "[low_pins []]"]
    boot_sequence [of "low_pins []" 3 "[]"]
  by (simp add: level_def low_pins_def calls_Nil replicate_9)

text \<open>
  Claim C4. At the end of every pass, the flag of every channel equals the logical level
  sampled for that channel in the pass, whatever the flags were before and whether or not
  an action was dispatched.
\<close>

theorem flags_track_samples:
  "last_of ch (snd (loop_body rd v)) = level rd (pin_of ch)"
  by (simp add: last_of_loop_body level_def)

text \<open>
  Claim C5. A pass runs the handlers of key 1, key 2, key 3, the encoder and the encoder
  switch in this order, so the actions dispatched in it are those of key 1, then key 2,
  then key 3, then the encoder rotation, then the encoder switch: the ranks of the dispatched
  actions increase strictly, so there is at most one action per channel and the order is
  fixed. The pass is a function of the variables and of the sampled levels: samples that
  agree on every pin give the same events and the same variables.
\<close>

theorem dispatch_order:
  "calls (fst (loop_body rd v)) =
     calls (fst (handle_key1 rd v)) @ calls (fst (handle_key2 rd v))
       @ calls (fst (handle_key3 rd v)) @ calls (fst (handle_encoder rd v))
       @ calls (fst (handle_encoder_switch rd v)) @ [DLY_ms 2, WDT_reset]
   \<and> dispatched (fst (loop_body rd v)) =
     dispatched_for Key1 (fst (loop_body rd v)) @ dispatched_for Key2 (fst (loop_body rd v))
       @ dispatched_for Key3 (fst (loop_body rd v)) @ dispatched_for EncA (fst (loop_body rd v))
       @ dispatched_for EncSW (fst (loop_body rd v))
   \<and> sorted_wrt (<) (map rank (dispatched (fst (loop_body rd v))))
   \<and> ((\<forall>p. rd' p = rd p) \<longrightarrow> loop_body rd' v = loop_body rd v)"
proof (intro conjI impI)
  show "calls (fst (loop_body rd v)) =
     calls (fst (handle_key1 rd v)) @ calls (fst (handle_key2 rd v))
       @ calls (fst (handle_key3 rd v)) @ calls (fst (handle_encoder rd v))
       @ calls (fst (handle_encoder_switch rd v)) @ [DLY_ms 2, WDT_reset]"
    by (rule calls_loop_body)
  show "dispatched (fst (loop_body rd v)) =
     dispatched_for Key1 (fst (loop_body rd v)) @ dispatched_for Key2 (fst (loop_body rd v))
       @ dispatched_for Key3 (fst (loop_body rd v)) @ dispatched_for EncA (fst (loop_body rd v))
       @ dispatched_for EncSW (fst (loop_body rd v))"
    by (simp add: dispatched_for_loop_body dispatched_loop_body)
  show "sorted_wrt (<) (map rank (dispatched (fst (loop_body rd v))))"
    unfolding dispatched_loop_body map_append
    using rank_dispatched_handle [of Key1 rd v] rank_dispatched_handle [of Key2 rd v]
      rank_dispatched_handle [of Key3 rd v] rank_dispatched_handle [of EncA rd v]
      rank_dispatched_handle [of EncSW rd v]
    by (simp add: sorted_wrt_append)
  assume "\<forall>p. rd' p = rd p"
  then have "rd' = rd" by (simp add: fun_eq_iff)
  then show "loop_body rd' v = loop_body rd v" by simp
qed

theorem dispatch_order_witness:
  "dispatched (fst (loop_body (low_pins [PIN_KEY1, PIN_KEY3, PIN_ENC_SW]) main_vars)) =
     [KEY1_PRESSED, KEY3_PRESSED, ENC_SW_PRESSED]
   \<and> (\<forall>p. low_pins [PIN_ENC_SW, PIN_KEY3, PIN_KEY1] p = low_pins [PIN_KEY1, PIN_KEY3, PIN_ENC_SW] p)
   \<and> loop_body (low_pins [PIN_ENC_SW, PIN_KEY3, PIN_KEY1]) main_vars =
       loop_body (low_pins [PIN_KEY1, PIN_KEY3, PIN_ENC_SW]) main_vars"
proof -
  have same: "\<forall>p. low_pins [PIN_ENC_SW, PIN_KEY3, PIN_KEY1] p = low_pins [PIN_KEY1, PIN_KEY3, PIN_ENC_SW] p"
    by (auto simp add: low_pins_def)
  have acts: "dispatched_for Key1 (fst (loop_body (low_pins [PIN_KEY1, PIN_KEY3, PIN_ENC_SW]) main_vars)) = [KEY1_PRESSED]"
    "dispatched_for Key2 (fst (loop_body (low_pins [PIN_KEY1, PIN_KEY3, PIN_ENC_SW]) main_vars)) = []"
    "dispatched_for Key3 (fst (loop_body (low_pins [PIN_KEY1, PIN_KEY3, PIN_ENC_SW]) main_vars)) = [KEY3_PRESSED]"
    "dispatched_for EncA (fst (loop_body (low_pins [PIN_KEY1, PIN_KEY3, PIN_ENC_SW]) main_vars)) = []"
    "dispatched_for EncSW (fst (loop_body (low_pins [PIN_KEY1, PIN_KEY3, PIN_ENC_SW]) main_vars)) = [ENC_SW_PRESSED]"
    by (simp_all add: dispatched_for_loop_body dispatched_def calls_handle low_pins_def
        main_vars_def)
  show ?thesis
    using dispatch_order [of "low_pins [PIN_KEY1, PIN_KEY3, PIN_ENC_SW]" main_vars
        "low_pins [PIN_ENC_SW, PIN_KEY3, PIN_KEY1]"] same acts
    by simp
qed

text \<open>
  Claim C6. In normal mode \<^verbatim>\<open>WDT_start\<close> is called exactly once, right
  after \<^verbatim>\<open>HID_init\<close> and \<^verbatim>\<open>DLY_ms(500)\<close> and before the first
  pass. Every pass consists of the five handlers followed by \<^verbatim>\<open>DLY_ms(2)\<close> and
  \<^verbatim>\<open>WDT_reset\<close>; no handler resets the watchdog, so each pass resets it
  exactly once, as its last call, and a run of \<open>n\<close> passes resets it \<open>n\<close> times.
\<close>

theorem watchdog_discipline:
  "\<not> level rd0 PIN_ENC_SW \<Longrightarrow>
     calls (fst (main NEO_COUNT rd0 rds)) =
       [NEO_init, CLK_config, DLY_ms 10, NEO_clearAll, PIN_read PIN_ENC_SW,
        NEO_writeColor 0 255 33 140, NEO_writeColor 1 255 216 0, NEO_writeColor 2 33 177 255,
        NEO_update, HID_init, DLY_ms 500, WDT_start]
         @ calls (fst (main_loop rds main_vars))
   \<and> count_list (calls (fst (main NEO_COUNT rd0 rds))) WDT_start = 1
   \<and> count_list (calls (fst (main NEO_COUNT rd0 rds))) WDT_reset = length rds
   \<and> calls (fst (main_loop (rd # rds') v)) =
       calls (fst (loop_body rd v)) @ calls (fst (main_loop rds' (snd (loop_body rd v))))
   \<and> calls (fst (loop_body rd v)) =
       calls (fst (handle_key1 rd v)) @ calls (fst (handle_key2 rd v))
         @ calls (fst (handle_key3 rd v)) @ calls (fst (handle_encoder rd v))
         @ calls (fst (handle_encoder_switch rd v)) @ [DLY_ms 2, WDT_reset]
   \<and> count_list (calls (fst (loop_body rd v))) WDT_reset = 1
   \<and> WDT_reset \<notin> set (calls (fst (handle ch rd v)))"
proof (intro conjI)
  assume "\<not> level rd0 PIN_ENC_SW"
  then have normal: "rd0 PIN_ENC_SW" by (simp add: level_def)
  show "calls (fst (main NEO_COUNT rd0 rds)) =
       [NEO_init, CLK_config, DLY_ms 10, NEO_clearAll, PIN_read PIN_ENC_SW,
        NEO_writeColor 0 255 33 140, NEO_writeColor 1 255 216 0, NEO_writeColor 2 33 177 255,
        NEO_update, HID_init, DLY_ms 500, WDT_start]
         @ calls (fst (main_loop rds main_vars))"
    using normal by (rule calls_main_normal)
  show "count_list (calls (fst (main NEO_COUNT rd0 rds))) WDT_start = 1"
    using normal by (simp add: calls_main_normal main_loop_no_boot_calls count_list_absent)
  show "count_list (calls (fst (main NEO_COUNT rd0 rds))) WDT_reset = length rds"
    using normal by (simp add: calls_main_normal count_WDT_reset_main_loop)
  show "calls (fst (main_loop (rd # rds') v)) =
       calls (fst (loop_body rd v)) @ calls (fst (main_loop rds' (snd (loop_body rd v))))"
    by (simp add: fst_main_loop_Cons calls_append del: main_loop.simps)
  show "calls (fst (loop_body rd v)) =
       calls (fst (handle_key1 rd v)) @ calls (fst (handle_key2 rd v))
         @ calls (fst (handle_key3 rd v)) @ calls (fst (handle_encoder rd v))
         @ calls (fst (handle_encoder_switch rd v)) @ [DLY_ms 2, WDT_reset]"
    by (rule calls_loop_body)
  show "count_list (calls (fst (loop_body rd v))) WDT_reset = 1"
    by (rule count_WDT_reset_loop_body)
  show "WDT_reset \<notin> set (calls (fst (handle ch rd v)))"
    using handle_calls_kind [of WDT_reset ch rd v] by auto
qed

theorem watchdog_discipline_witness:
  "\<not> level (low_pins []) PIN_ENC_SW
   \<and> calls (fst (main 3 (low_pins []) [low_pins [PIN_KEY1], low_pins []])) =
       [NEO_init, CLK_config, DLY_ms 10, NEO_clearAll, PIN_read PIN_ENC_SW,
        NEO_writeColor 0 255 33 140, NEO_writeColor 1 255 216 0, NEO_writeColor 2 33 177 255,
        NEO_update, HID_init, DLY_ms 500, WDT_start,
        PIN_read PIN_KEY1, KEY1_PRESSED, PIN_read PIN_KEY2, PIN_read PIN_KEY3,
        PIN_read PIN_ENC_A, PIN_read PIN_ENC_SW, DLY_ms 2, WDT_reset,
        PIN_read PIN_KEY1, KEY1_RELEASED, PIN_read PIN_KEY2, PIN_read PIN_KEY3,
        PIN_read PIN_ENC_A, PIN_read PIN_ENC_SW, DLY_ms 2, WDT_reset]
   \<and> count_list (calls (fst (main 3 (low_pins []) [low_pins [PIN_KEY1], low_pins []])))
        WDT_start = 1
   \<and> count_list (calls (fst (main 3 (low_pins []) [low_pins [PIN_KEY1], low_pins []])))
        WDT_reset = 2"
proof -
  have run: "calls (fst (main_loop [low_pins [PIN_KEY1], low_pins []] main_vars)) =
       [PIN_read PIN_KEY1, KEY1_PRESSED, PIN_read PIN_KEY2, PIN_read PIN_KEY3,
        PIN_read PIN_ENC_A, PIN_read PIN_ENC_SW, DLY_ms 2, WDT_reset,
        PIN_read PIN_KEY1, KEY1_RELEASED, PIN_read PIN_KEY2, PIN_read PIN_KEY3,
        PIN_read PIN_ENC_A, PIN_read PIN_ENC_SW, DLY_ms 2, WDT_reset]"
    by (simp add: fst_main_loop_Cons calls_append calls_loop_body calls_handle snd_loop_body
        low_pins_def main_vars_def calls_Nil del: main_loop.simps(2))
  show ?thesis
    using watchdog_discipline [of "low_pins []" 3 "[low_pins [PIN_KEY1], low_pins []]"] run
    by (simp add: level_def low_pins_def)
qed

text \<open>
  Claim C7. For every channel, when the sampled level equals the flag, the handler only
  reads the pin: no action of the channel is dispatched, in the handler or in the whole
  pass, and the variables are unchanged.
\<close>

theorem unchanged_input_is_idle:
  "level rd (pin_of ch) = last_of ch v \<Longrightarrow>
     handle ch rd v = ([(PIN_read (pin_of ch), v)], v)
   \<and> dispatched (fst (handle ch rd v)) = []
   \<and> dispatched_for ch (fst (loop_body rd v)) = []
   \<and> last_of ch (snd (loop_body rd v)) = last_of ch v"
  by (cases ch)
    (simp_all add: level_def handle_defs dispatched_for_loop_body dispatched_def calls_def
      snd_loop_body)

theorem unchanged_input_is_idle_witness:
  "level (low_pins [PIN_KEY2]) (pin_of Key1) = last_of Key1 main_vars
   \<and> handle Key1 (low_pins [PIN_KEY2]) main_vars = ([(PIN_read PIN_KEY1, main_vars)], main_vars)
   \<and> dispatched_for Key1 (fst (loop_body (low_pins [PIN_KEY2]) main_vars)) = []"
  using unchanged_input_is_idle [of "low_pins [PIN_KEY2]" Key1 main_vars]
  by (simp add: level_def low_pins_def main_vars_def)

text \<open>
  Claim C8. Every channel with a flag is active-low. After a pass the flag of a channel
  is the negation of the raw reading of its pin. The pressed macro function of a button
  channel is called in a pass exactly when the pin reads low and the flag was 0, the
  released one exactly when the pin reads high and the flag was 1. A rotation action is
  dispatched exactly when the pin of channel A reads low and its flag was 0. At boot
  \<^verbatim>\<open>BOOT_now\<close> is called exactly when the pin of the encoder switch reads low.
\<close>

theorem inputs_active_low:
  "last_of ch (snd (loop_body rd v)) = (\<not> rd (pin_of ch))
   \<and> (binding ch = Some (p, r) \<longrightarrow>
        (p \<in> set (calls (fst (loop_body rd v))) \<longleftrightarrow> \<not> rd (pin_of ch) \<and> \<not> last_of ch v)
      \<and> (r \<in> set (calls (fst (loop_body rd v))) \<longleftrightarrow> rd (pin_of ch) \<and> last_of ch v))
   \<and> (dispatched_for EncA (fst (loop_body rd v)) \<noteq> [] \<longleftrightarrow> \<not> rd PIN_ENC_A \<and> \<not> encAlast v)
   \<and> (BOOT_now \<in> set (calls (fst (main NEO_COUNT rd0 rds))) \<longleftrightarrow> \<not> rd0 PIN_ENC_SW)"
proof (intro conjI impI)
  show "last_of ch (snd (loop_body rd v)) = (\<not> rd (pin_of ch))"
    by (rule last_of_loop_body)
  show "dispatched_for EncA (fst (loop_body rd v)) \<noteq> [] \<longleftrightarrow> \<not> rd PIN_ENC_A \<and> \<not> encAlast v"
    using dispatched_handle [of EncA rd v] by (auto simp add: dispatched_for_loop_body)
  show "BOOT_now \<in> set (calls (fst (main NEO_COUNT rd0 rds))) \<longleftrightarrow> \<not> rd0 PIN_ENC_SW"
    by (cases "rd0 PIN_ENC_SW")
      (simp_all add: calls_main_normal calls_main_bootloader main_loop_no_boot_calls)
next
  assume b: "binding ch = Some (p, r)"
  then have own: "owner p = Some ch" "owner r = Some ch" "p \<noteq> r"
    using binding_owner by blast+
  show "p \<in> set (calls (fst (loop_body rd v))) \<longleftrightarrow> \<not> rd (pin_of ch) \<and> \<not> last_of ch v"
    using b own(3)
    by (auto simp add: owned_call_dispatched [OF own(1)] dispatched_for_loop_body
        dispatched_handle)
  show "r \<in> set (calls (fst (loop_body rd v))) \<longleftrightarrow> rd (pin_of ch) \<and> last_of ch v"
    using b own(3)
    by (auto simp add: owned_call_dispatched [OF own(2)] dispatched_for_loop_body
        dispatched_handle)
qed

theorem inputs_active_low_witness:
  "binding Key3 = Some (KEY3_PRESSED, KEY3_RELEASED)
   \<and> low_pins [PIN_KEY3] PIN_KEY3 = False
   \<and> KEY3_PRESSED \<in> set (calls (fst (loop_body (low_pins [PIN_KEY3]) main_vars)))
   \<and> KEY3_RELEASED \<notin> set (calls (fst (loop_body (low_pins [PIN_KEY3]) main_vars)))
   \<and> key3last (snd (loop_body (low_pins [PIN_KEY3]) main_vars))
   \<and> BOOT_now \<in> set (calls (fst (main 3 (low_pins [PIN_ENC_SW]) [])))"
  using inputs_active_low [of Key3 "low_pins [PIN_KEY3]" main_vars KEY3_PRESSED KEY3_RELEASED 3
      "low_pins [PIN_ENC_SW]" "[]"]
  by (simp add: low_pins_def main_vars_def)

text \<open>
  Claim C9. Whenever a handler calls a macro function, the variables at the moment of the
  call are already those the handler returns, and the flag of the channel already holds
  the new level; the same holds for the events of a whole pass. The first call of a
  handler is the read of its pin, made with the variables it received. A handler changes
  the flag of no other channel.
\<close>

theorem flag_updated_before_action:
  "(\<forall>e \<in> set (fst (handle ch rd v)). owner (fst e) \<noteq> None \<longrightarrow>
       last_of ch (snd e) = level rd (pin_of ch) \<and> snd e = snd (handle ch rd v))
   \<and> (\<forall>e \<in> set (fst (loop_body rd v)). owner (fst e) = Some ch \<longrightarrow>
       last_of ch (snd e) = level rd (pin_of ch))
   \<and> hd (fst (handle ch rd v)) = (PIN_read (pin_of ch), v)
   \<and> (ch' \<noteq> ch \<longrightarrow> last_of ch' (snd (handle ch rd v)) = last_of ch' v)"
proof (intro conjI ballI impI)
  fix e assume "e \<in> set (fst (handle ch rd v))" and "owner (fst e) \<noteq> None"
  then obtain c where "owner (fst e) = Some c" and "e \<in> set (fst (handle ch rd v))"
    by auto
  then have "ch = c \<and> last_of c (snd e) = (\<not> rd (pin_of c)) \<and> snd e = snd (handle c rd v)"
    by (rule handle_event_snapshot [rotated])
  then show "last_of ch (snd e) = level rd (pin_of ch)" and "snd e = snd (handle ch rd v)"
    by (simp_all add: level_def last_of_handle)
next
  fix e assume "e \<in> set (fst (loop_body rd v))" and "owner (fst e) = Some ch"
  then show "last_of ch (snd e) = level rd (pin_of ch)"
    by (simp add: loop_body_event_snapshot level_def)
next
  show "hd (fst (handle ch rd v)) = (PIN_read (pin_of ch), v)"
    by (cases ch) (simp_all add: handle_defs Let_def)
next
  assume "ch' \<noteq> ch"
  then show "last_of ch' (snd (handle ch rd v)) = last_of ch' v"
    by (simp add: last_of_handle)
qed

theorem flag_updated_before_action_witness:
  "fst (handle Key1 (low_pins [PIN_KEY1]) main_vars) =
     [(PIN_read PIN_KEY1, main_vars), (KEY1_PRESSED, main_vars\<lparr>key1last := True\<rparr>)]
   \<and> (KEY1_PRESSED, main_vars\<lparr>key1last := True\<rparr>)
        \<in> set (fst (loop_body (low_pins [PIN_KEY1]) main_vars))
   \<and> owner KEY1_PRESSED = Some Key1
   \<and> last_of Key1 (main_vars\<lparr>key1last := True\<rparr>) = level (low_pins [PIN_KEY1]) (pin_of Key1)
   \<and> Key2 \<noteq> Key1
   \<and> last_of Key2 (snd (handle Key1 (low_pins [PIN_KEY1]) main_vars)) = last_of Key2 main_vars"
  using flag_updated_before_action [of Key1 "low_pins [PIN_KEY1]" main_vars Key2]
  by (simp add: loop_body_split handle_key1_def Let_def level_def low_pins_def main_vars_def)

text \<open>
  Claim C10. The five flags are 0 at the start and during the whole boot sequence, and in
  normal mode the first pass runs on these cleared flags. Hence a channel whose level is
  active at its first sampling has exactly one action dispatched in the first pass: the
  pressed macro function for a button channel, a rotation action for the encoder.
\<close>

theorem flags_start_cleared:
  "\<not> level rd0 PIN_ENC_SW \<Longrightarrow>
     last_of ch main_vars = False
   \<and> (\<forall>e \<in> set (fst (main NEO_COUNT rd0 [])). snd e = main_vars)
   \<and> fst (main NEO_COUNT rd0 (rd # rds)) =
       fst (main NEO_COUNT rd0 []) @ fst (loop_body rd main_vars)
         @ fst (main_loop rds (snd (loop_body rd main_vars)))
   \<and> (level rd (pin_of ch) \<longrightarrow>
        dispatched_for ch (fst (loop_body rd main_vars)) =
          (case binding ch of
             Some (p, r) \<Rightarrow> [p]
           | None \<Rightarrow> [if rd PIN_ENC_B then ENC_CW_ACTION else ENC_CCW_ACTION]))"
proof (intro conjI impI)
  assume "\<not> level rd0 PIN_ENC_SW"
  then have normal: "rd0 PIN_ENC_SW" by (simp add: level_def)
  show zero: "last_of ch main_vars = False"
    by (cases ch) (simp_all add: main_vars_def)
  show "\<forall>e \<in> set (fst (main NEO_COUNT rd0 [])). snd e = main_vars"
    using normal by (auto simp add: fst_main_normal stamp_def)
  show "fst (main NEO_COUNT rd0 (rd # rds)) =
       fst (main NEO_COUNT rd0 []) @ fst (loop_body rd main_vars)
         @ fst (main_loop rds (snd (loop_body rd main_vars)))"
    using normal by (simp add: fst_main_normal fst_main_loop_Cons del: main_loop.simps(2))
  assume "level rd (pin_of ch)"
  then show "dispatched_for ch (fst (loop_body rd main_vars)) =
          (case binding ch of
             Some (p, r) \<Rightarrow> [p]
           | None \<Rightarrow> [if rd PIN_ENC_B then ENC_CW_ACTION else ENC_CCW_ACTION])"
    using zero
    by (cases ch) (simp_all add: level_def dispatched_for_loop_body dispatched_def calls_handle)
qed

theorem flags_start_cleared_witness:
  "\<not> level (low_pins []) PIN_ENC_SW
   \<and> last_of Key2 main_vars = False
   \<and> level (low_pins [PIN_KEY2]) (pin_of Key2)
   \<and> dispatched_for Key2 (fst (loop_body (low_pins [PIN_KEY2]) main_vars)) = [KEY2_PRESSED]"
  using flags_start_cleared [of "low_pins []" Key2 3 "low_pins [PIN_KEY2]" "[]"]
  by (simp add: level_def low_pins_def)

end
